theory Spec2Isabelle
  imports Complex_Main "HOL-Library.Word"
begin

section \<open>JavaScript values used by the registration backend\<close>

text \<open>
  A JavaScript string is a sequence of UTF-16 code units; \<open>.length\<close> counts code units
  and the character classes of a regular expression without the \<open>u\<close> flag look at one
  code unit at a time. String literals of the source are ASCII and are written through
  \<open>js\<close>.
\<close>

type_synonym code_unit = "16 word"
type_synonym jsstring = "code_unit list"

definition js :: "string \<Rightarrow> jsstring" where
  "js s = map of_char s"

text \<open>
  A value read from the JSON body by destructuring is either \<open>undefined\<close> (the key is
  absent), written \<open>None\<close>, or a value of the type the Mongoose schema gives the field:
  \<open>String\<close> or \<open>Number\<close>. \<open>!v\<close> is JavaScript's falsiness: \<open>undefined\<close>, the empty
  string and the number zero are falsy. (A JSON \<open>null\<close> behaves as \<open>undefined\<close> in every
  test the handlers make: it is falsy and strictly different from every string.)
  Numbers are the finite values JSON can carry; only their being zero is ever inspected.
  Requests that put a value of another JSON type in a field (a number where the schema
  has a string, say) are not described by this model.
\<close>

definition falsy_str :: "jsstring option \<Rightarrow> bool" where
  "falsy_str v = (case v of None \<Rightarrow> True | Some s \<Rightarrow> s = [])"

definition falsy_num :: "real option \<Rightarrow> bool" where
  "falsy_num v = (case v of None \<Rightarrow> True | Some x \<Rightarrow> x = 0)"

text \<open>\<open>ToString\<close>, as applied by \<open>RegExp.prototype.test\<close> and by template literals.\<close>

definition ToString :: "jsstring option \<Rightarrow> jsstring" where
  "ToString v = (case v of None \<Rightarrow> js ''undefined'' | Some s \<Rightarrow> s)"

text \<open>An exception in flight: only the \<open>message\<close> of the error is ever read.\<close>

datatype js_error = Error (message: jsstring)

section \<open>Regular expressions\<close>

text \<open>
  The two patterns of the source, \<open>/^[^\s@]+@[^\s@]+\.[^\s@]+$/\<close> and \<open>/^\d{10}$/\<close>,
  carry no flags and are anchored at both ends, so \<open>test\<close> keeps no \<open>lastIndex\<close>
  between calls and asks whether the whole string belongs to the pattern's language.
  A pattern is a regular expression over classes of code units; \<open>matches\<close> decides
  membership by derivatives.
\<close>

datatype regex =
    Zero
  | One
  | Class "code_unit \<Rightarrow> bool"
  | Alt regex regex
  | Seq regex regex
  | Star regex

definition Plus :: "regex \<Rightarrow> regex" where
  "Plus r = Seq r (Star r)"

fun Rep :: "nat \<Rightarrow> regex \<Rightarrow> regex" where
  "Rep 0 r = One"
| "Rep (Suc n) r = Seq r (Rep n r)"

definition Chr :: "char \<Rightarrow> regex" where
  "Chr a = Class (\<lambda>c. c = of_char a)"

fun nullable :: "regex \<Rightarrow> bool" where
  "nullable Zero = False"
| "nullable One = True"
| "nullable (Class p) = False"
| "nullable (Alt r s) = (nullable r \<or> nullable s)"
| "nullable (Seq r s) = (nullable r \<and> nullable s)"
| "nullable (Star r) = True"

fun deriv :: "code_unit \<Rightarrow> regex \<Rightarrow> regex" where
  "deriv c Zero = Zero"
| "deriv c One = Zero"
| "deriv c (Class p) = (if p c then One else Zero)"
| "deriv c (Alt r s) = Alt (deriv c r) (deriv c s)"
| "deriv c (Seq r s) =
     (if nullable r then Alt (Seq (deriv c r) s) (deriv c s) else Seq (deriv c r) s)"
| "deriv c (Star r) = Seq (deriv c r) (Star r)"

fun matches :: "regex \<Rightarrow> jsstring \<Rightarrow> bool" where
  "matches r [] = nullable r"
| "matches r (c # cs) = matches (deriv c r) cs"

text \<open>\<open>re.test(v)\<close>: the argument is converted with \<open>ToString\<close> first.\<close>

definition regex_test :: "regex \<Rightarrow> jsstring option \<Rightarrow> bool" where
  "regex_test re v = matches re (ToString v)"

text \<open>
  \<open>\s\<close> is WhiteSpace and LineTerminator of ECMAScript: TAB, LF, VT, FF, CR, SP, NBSP,
  U+1680, U+2000 to U+200A, U+2028, U+2029, U+202F, U+205F, U+3000 and U+FEFF.
  \<open>\d\<close> is \<open>[0-9]\<close>.
\<close>

definition is_space :: "code_unit \<Rightarrow> bool" where
  "is_space c =
     (c = 0x09 \<or> c = 0x0A \<or> c = 0x0B \<or> c = 0x0C \<or> c = 0x0D \<or> c = 0x20 \<or> c = 0xA0
      \<or> c = 0x1680 \<or> (0x2000 \<le> c \<and> c \<le> 0x200A) \<or> c = 0x2028 \<or> c = 0x2029
      \<or> c = 0x202F \<or> c = 0x205F \<or> c = 0x3000 \<or> c = 0xFEFF)"

definition is_digit :: "code_unit \<Rightarrow> bool" where
  "is_digit c = (0x30 \<le> c \<and> c \<le> 0x39)"

text \<open>The class \<open>[^\s@]\<close>.\<close>

definition not_space_at :: "code_unit \<Rightarrow> bool" where
  "not_space_at c = (\<not> is_space c \<and> c \<noteq> of_char CHR ''@'')"

text \<open>\<open>/^[^\s@]+@[^\s@]+\.[^\s@]+$/\<close>\<close>

definition email_re :: regex where
  "email_re =
     Seq (Plus (Class not_space_at))
       (Seq (Chr CHR ''@'')
         (Seq (Plus (Class not_space_at))
           (Seq (Chr CHR ''.'')
             (Plus (Class not_space_at)))))"

text \<open>\<open>/^\d{10}$/\<close>\<close>

definition phone_re :: regex where
  "phone_re = Rep 10 (Class is_digit)"

subsection \<open>The language of a pattern\<close>

definition conc :: "jsstring set \<Rightarrow> jsstring set \<Rightarrow> jsstring set" where
  "conc A B = {u @ v | u v. u \<in> A \<and> v \<in> B}"

inductive_set star :: "jsstring set \<Rightarrow> jsstring set" for A :: "jsstring set" where
  star_empty: "[] \<in> star A"
| star_step: "u \<in> A \<Longrightarrow> v \<in> star A \<Longrightarrow> u @ v \<in> star A"

fun lang :: "regex \<Rightarrow> jsstring set" where
  "lang Zero = {}"
| "lang One = {[]}"
| "lang (Class p) = {[c] | c. p c}"
| "lang (Alt r s) = lang r \<union> lang s"
| "lang (Seq r s) = conc (lang r) (lang s)"
| "lang (Star r) = star (lang r)"

section \<open>Data model\<close>

text \<open>
  \<open>customerSchema\<close>: seven \<open>String\<close> fields, two \<open>Number\<close> fields and the optional
  \<open>deviceInfo\<close> object. A field of a document or of a request body may be \<open>undefined\<close>.
  The request body of \<open>POST /api/customers\<close> carries the same fields and
  \<open>confirmPassword\<close>.
\<close>

datatype json_value =
    JNull
  | JBool bool
  | JNumber real
  | JString jsstring
  | JArray "json_value list"
  | JObject "(jsstring \<times> json_value) list"

record customer =
  fullName :: "jsstring option"
  email :: "jsstring option"
  phoneNumber :: "jsstring option"
  gender :: "jsstring option"
  dateOfBirth :: "jsstring option"
  address :: "jsstring option"
  password :: "jsstring option"
  latitude :: "real option"
  longitude :: "real option"
  deviceInfo :: "json_value option"

record payload = customer +
  confirmPassword :: "jsstring option"

text \<open>The message handed to the mail transport.\<close>

record mail =
  mail_to :: "jsstring option"
  mail_from :: "jsstring option"
  subject :: jsstring
  html :: jsstring

text \<open>\<open>res.status(n).json(...)\<close>: a status and one of the three bodies the routes send.\<close>

datatype res_body =
    MessageBody jsstring
  | ErrorBody jsstring
  | Document customer

record response =
  status :: nat
  body :: res_body

section \<open>Collaborators and the world\<close>

text \<open>
  The database, the mail transport and the console are outside the program. The world
  records what a handler did to them: the stored documents, the console lines and, in
  order, every call made to a collaborator. Whether a call fails is not decided by the
  program: the environment gives, for each call, the error it is rejected with, if any.
  \<open>send_mail\<close> stands for \<open>sgMail.send\<close> in the SendGrid variant and for
  \<open>transporter.sendMail\<close> in the nodemailer variant.
\<close>

datatype call =
    Save customer
  | FindOne jsstring
  | Send mail

datatype level = Log | Warn | Err

record world =
  db :: "customer list"
  console :: "(level \<times> jsstring list) list"
  calls :: "call list"

record env =
  FROM_EMAIL :: "jsstring option"
  EMAIL_USER :: "jsstring option"
  db_save :: "customer \<Rightarrow> js_error option"
  db_findOne :: "jsstring \<Rightarrow> js_error option"
  send_mail :: "mail \<Rightarrow> js_error option"

definition console_log :: "jsstring list \<Rightarrow> world \<Rightarrow> world" where
  "console_log args w = w\<lparr>console := console w @ [(Log, args)]\<rparr>"

definition console_warn :: "jsstring list \<Rightarrow> world \<Rightarrow> world" where
  "console_warn args w = w\<lparr>console := console w @ [(Warn, args)]\<rparr>"

definition console_error :: "jsstring list \<Rightarrow> world \<Rightarrow> world" where
  "console_error args w = w\<lparr>console := console w @ [(Err, args)]\<rparr>"

definition called :: "call \<Rightarrow> world \<Rightarrow> world" where
  "called c w = w\<lparr>calls := calls w @ [c]\<rparr>"

definition res_json :: "nat \<Rightarrow> res_body \<Rightarrow> response" where
  "res_json code b = \<lparr>status = code, body = b\<rparr>"

section \<open>The confirmation email\<close>

text \<open>
  The template literal of \<open>sendConfirmationEmail\<close>, the same in both variants that send
  mail: five lines of HTML, each on a line of its own, indented as in the source.
\<close>

definition nl :: jsstring where
  "nl = [0x0A]"

definition confirmation_html :: "jsstring option \<Rightarrow> jsstring" where
  "confirmation_html name =
     nl @ js ''        <h2>Welcome, '' @ ToString name @ js ''!</h2>''
     @ nl @ js ''        <p>Thank you for registering with us!</p>''
     @ nl @ js ''        <p>Your account has been successfully created. You can now log in using your email and password.</p>''
     @ nl @ js ''        <p>If you did not initiate this registration, please contact our support team.</p>''
     @ nl @ js ''        <p>Best regards,<br>Registration System Team</p>''
     @ nl @ js ''      ''"

text \<open>
  SendGrid variant (src/index.js, lines 53 to 76). The failure of \<open>sgMail.send\<close> is
  caught, logged and returned as the object \<open>{ error: ... }\<close>; on success the function
  returns \<open>undefined\<close>. The result is the \<open>error\<close> property of the returned object,
  if one is returned.
\<close>

definition msg_sendgrid :: "env \<Rightarrow> jsstring option \<Rightarrow> jsstring option \<Rightarrow> mail" where
  "msg_sendgrid e to_addr name =
     \<lparr>mail_to = to_addr, mail_from = FROM_EMAIL e,
      subject = js ''Registration Confirmation'', html = confirmation_html name\<rparr>"

definition sendConfirmationEmail_sendgrid ::
  "env \<Rightarrow> jsstring option \<Rightarrow> jsstring option \<Rightarrow> world \<Rightarrow> jsstring option \<times> world" where
  "sendConfirmationEmail_sendgrid e to_addr name w =
     (let msg = msg_sendgrid e to_addr name;
          w1 = called (Send msg) w
      in case send_mail e msg of
           None \<Rightarrow> (None, console_log [js ''Confirmation email sent to '' @ ToString to_addr] w1)
         | Some error \<Rightarrow>
             (Some (js ''Failed to send confirmation email''),
              console_error [js ''Error sending email:'', message error] w1))"

text \<open>
  nodemailer variant (src/index.js, second file, lines 212 to 234 of the listing). The
  failure of \<open>transporter.sendMail\<close> is caught, logged and thrown again as a new
  \<open>Error\<close>.
\<close>

definition sender_nodemailer :: "jsstring option \<Rightarrow> jsstring" where
  "sender_nodemailer user =
     [0x22] @ js ''Registration System'' @ [0x22] @ js '' <'' @ ToString user @ js ''>''"

definition mailOptions_nodemailer :: "env \<Rightarrow> jsstring option \<Rightarrow> jsstring option \<Rightarrow> mail" where
  "mailOptions_nodemailer e to_addr name =
     \<lparr>mail_to = to_addr, mail_from = Some (sender_nodemailer (EMAIL_USER e)),
      subject = js ''Registration Confirmation'', html = confirmation_html name\<rparr>"

definition sendConfirmationEmail_nodemailer ::
  "env \<Rightarrow> jsstring option \<Rightarrow> jsstring option \<Rightarrow> world \<Rightarrow> (js_error + unit) \<times> world" where
  "sendConfirmationEmail_nodemailer e to_addr name w =
     (let mailOptions = mailOptions_nodemailer e to_addr name;
          w1 = called (Send mailOptions) w
      in case send_mail e mailOptions of
           None \<Rightarrow> (Inr (), console_log [js ''Confirmation email sent to '' @ ToString to_addr] w1)
         | Some error \<Rightarrow>
             (Inl (Error (js ''Failed to send confirmation email'')),
              console_error [js ''Error sending email:'', message error] w1))"

section \<open>Validation\<close>

text \<open>
  \<open>password.length\<close>: reading a property of \<open>undefined\<close> throws a \<open>TypeError\<close>.
\<close>

definition js_length :: "jsstring option \<Rightarrow> js_error + nat" where
  "js_length v =
     (case v of
        None \<Rightarrow>
          Inl (Error (js ''Cannot read properties of undefined (reading '' @ [0x27]
                      @ js ''length'' @ [0x27] @ js '')''))
      | Some s \<Rightarrow> Inr (length s))"

text \<open>
  The five checks at the head of the \<open>POST /api/customers\<close> handler, word for word the
  same in the three variants (src/index.js lines 103 to 117 and 261 to 275 of the listing,
  src/unnamed/part_000 lines 67 to 81). Each failing check returns its 400 response at
  once; \<open>Inr None\<close> means that every check passed, \<open>Inl\<close> that one of them threw.
\<close>

definition validation :: "payload \<Rightarrow> js_error + response option" where
  "validation req =
     (if falsy_str (fullName req) \<or> falsy_str (email req) \<or> falsy_str (phoneNumber req)
         \<or> falsy_str (gender req) \<or> falsy_str (dateOfBirth req) \<or> falsy_str (address req)
         \<or> falsy_str (password req) \<or> falsy_num (latitude req) \<or> falsy_num (longitude req)
      then Inr (Some (res_json 400 (ErrorBody (js ''All fields are required''))))
      else if \<not> regex_test email_re (email req)
      then Inr (Some (res_json 400 (ErrorBody (js ''Invalid email format''))))
      else if \<not> regex_test phone_re (phoneNumber req)
      then Inr (Some (res_json 400 (ErrorBody (js ''Phone number must be 10 digits''))))
      else if password req \<noteq> confirmPassword req
      then Inr (Some (res_json 400 (ErrorBody (js ''Passwords do not match''))))
      else (case js_length (password req) of
              Inl error \<Rightarrow> Inl error
            | Inr n \<Rightarrow>
                if n < 6
                then Inr (Some (res_json 400 (ErrorBody (js ''Password must be at least 6 characters''))))
                else Inr None))"

section \<open>The routes\<close>

text \<open>\<open>new Customer({ fullName, email, ..., deviceInfo })\<close>\<close>

definition new_Customer :: "payload \<Rightarrow> customer" where
  "new_Customer req =
     \<lparr>fullName = fullName req, email = email req, phoneNumber = phoneNumber req,
      gender = gender req, dateOfBirth = dateOfBirth req, address = address req,
      password = password req, latitude = latitude req, longitude = longitude req,
      deviceInfo = deviceInfo req\<rparr>"

text \<open>The \<open>catch\<close> block of the \<open>POST /api/customers\<close> handler, the same in the three variants.\<close>

definition catch_customers :: "js_error \<Rightarrow> world \<Rightarrow> response \<times> world" where
  "catch_customers error w =
     (res_json 500 (ErrorBody (js ''Server error: '' @ message error)),
      console_error [js ''Error in /api/customers:'', message error] w)"

text \<open>
  \<open>await customer.save()\<close>: the call is made; it is rejected with an error, or the
  document is stored. A document built from a request that passed the five checks has
  every required field of the schema, so a rejection comes from the database, not from
  the program.
\<close>

definition save :: "env \<Rightarrow> customer \<Rightarrow> world \<Rightarrow> (js_error + unit) \<times> world" where
  "save e c w =
     (let w1 = called (Save c) w
      in case db_save e c of
           Some error \<Rightarrow> (Inl error, w1)
         | None \<Rightarrow> (Inr (), w1\<lparr>db := db w1 @ [c]\<rparr>))"

text \<open>\<open>POST /api/customers\<close>, SendGrid variant (src/index.js, lines 98 to 151).\<close>

definition post_api_customers_sendgrid :: "env \<Rightarrow> payload \<Rightarrow> world \<Rightarrow> response \<times> world" where
  "post_api_customers_sendgrid e req w =
     (case validation req of
        Inl error \<Rightarrow> catch_customers error w
      | Inr (Some res) \<Rightarrow> (res, w)
      | Inr None \<Rightarrow>
          (case save e (new_Customer req) w of
             (Inl error, w1) \<Rightarrow> catch_customers error w1
           | (Inr u, w1) \<Rightarrow>
               (case sendConfirmationEmail_sendgrid e (email req) (fullName req) w1 of
                  (emailResult, w2) \<Rightarrow>
                    if \<not> falsy_str emailResult
                    then (res_json 201 (MessageBody
                            (js ''Customer registered successfully, but failed to send confirmation email'')),
                          console_warn [js ''Registration succeeded but email failed:'',
                                        ToString emailResult] w2)
                    else (res_json 201 (MessageBody
                            (js ''Customer registered successfully and confirmation email sent'')),
                          w2))))"

text \<open>
  \<open>POST /api/customers\<close>, nodemailer variant (src/index.js, second file, lines 256 to 302
  of the listing). The error thrown by \<open>sendConfirmationEmail\<close> reaches the handler's
  \<open>catch\<close> block.
\<close>

definition post_api_customers_nodemailer :: "env \<Rightarrow> payload \<Rightarrow> world \<Rightarrow> response \<times> world" where
  "post_api_customers_nodemailer e req w =
     (case validation req of
        Inl error \<Rightarrow> catch_customers error w
      | Inr (Some res) \<Rightarrow> (res, w)
      | Inr None \<Rightarrow>
          (case save e (new_Customer req) w of
             (Inl error, w1) \<Rightarrow> catch_customers error w1
           | (Inr u, w1) \<Rightarrow>
               (case sendConfirmationEmail_nodemailer e (email req) (fullName req) w1 of
                  (Inl error, w2) \<Rightarrow> catch_customers error w2
                | (Inr u', w2) \<Rightarrow>
                    (res_json 201 (MessageBody
                       (js ''Customer registered successfully and confirmation email sent'')),
                     w2))))"

text \<open>
  \<open>POST /api/customers\<close>, the variant that sends no mail (src/unnamed/part_000, lines 62
  to 102).
\<close>

definition post_api_customers_plain :: "env \<Rightarrow> payload \<Rightarrow> world \<Rightarrow> response \<times> world" where
  "post_api_customers_plain e req w =
     (case validation req of
        Inl error \<Rightarrow> catch_customers error w
      | Inr (Some res) \<Rightarrow> (res, w)
      | Inr None \<Rightarrow>
          (case save e (new_Customer req) w of
             (Inl error, w1) \<Rightarrow> catch_customers error w1
           | (Inr u, w1) \<Rightarrow>
               (res_json 201 (MessageBody (js ''Customer registered successfully'')), w1)))"

text \<open>
  \<open>GET /api/customers/phone/:phoneNumber\<close>, the same in the three variants (src/index.js
  lines 84 to 95). \<open>Customer.findOne({ phoneNumber: p })\<close> is rejected with an error, or
  resolves to the first stored document whose \<open>phoneNumber\<close> is the string \<open>p\<close>, or to
  \<open>null\<close> when there is none.
\<close>

definition findOne :: "env \<Rightarrow> jsstring \<Rightarrow> world \<Rightarrow> (js_error + customer option) \<times> world" where
  "findOne e p w =
     (let w1 = called (FindOne p) w
      in case db_findOne e p of
           Some error \<Rightarrow> (Inl error, w1)
         | None \<Rightarrow> (Inr (find (\<lambda>c. phoneNumber c = Some p) (db w1)), w1))"

definition get_api_customers_phone :: "env \<Rightarrow> jsstring \<Rightarrow> world \<Rightarrow> response \<times> world" where
  "get_api_customers_phone e p w =
     (case findOne e p w of
        (Inl error, w1) \<Rightarrow>
          (res_json 500 (ErrorBody (js ''Server error: '' @ message error)),
           console_error [js ''Error fetching customer:'', message error] w1)
      | (Inr None, w1) \<Rightarrow> (res_json 404 (ErrorBody (js ''Customer not found'')), w1)
      | (Inr (Some c), w1) \<Rightarrow> (res_json 200 (Document c), w1))"

section \<open>The validation rules as the specification words them\<close>

text \<open>
  The specification names five rules and fixes their order. \<open>rule_message\<close> is the text
  the handler sends for each. \<open>fails\<close> states each rule in the specification's words:
  a required field is missing or empty; the email is not of the shape
  \<open>local@domain.tld\<close>, with no whitespace and no \<open>@\<close> inside the parts; the phone
  number is not exactly ten digits; the two passwords differ; the password has fewer
  than six characters. A text field is missing or empty when it is absent or the empty
  string; a coordinate is missing when it is absent, and the number zero is a coordinate
  like any other.
\<close>

datatype rule = MissingFields | InvalidEmail | InvalidPhone | PasswordMismatch | PasswordTooShort

definition precedence :: "rule list" where
  "precedence = [MissingFields, InvalidEmail, InvalidPhone, PasswordMismatch, PasswordTooShort]"

fun rule_message :: "rule \<Rightarrow> jsstring" where
  "rule_message MissingFields = js ''All fields are required''"
| "rule_message InvalidEmail = js ''Invalid email format''"
| "rule_message InvalidPhone = js ''Phone number must be 10 digits''"
| "rule_message PasswordMismatch = js ''Passwords do not match''"
| "rule_message PasswordTooShort = js ''Password must be at least 6 characters''"

definition bad_request :: "rule \<Rightarrow> response" where
  "bad_request r = \<lparr>status = 400, body = ErrorBody (rule_message r)\<rparr>"

definition part :: "jsstring \<Rightarrow> bool" where
  "part w = (w \<noteq> [] \<and> list_all (\<lambda>c. \<not> is_space c \<and> c \<noteq> of_char CHR ''@'') w)"

definition email_shape :: "jsstring \<Rightarrow> bool" where
  "email_shape s =
     (\<exists>local domain tld.
        s = local @ [of_char CHR ''@''] @ domain @ [of_char CHR ''.''] @ tld
        \<and> part local \<and> part domain \<and> part tld)"

definition ten_digits :: "jsstring \<Rightarrow> bool" where
  "ten_digits s = (length s = 10 \<and> list_all is_digit s)"

definition all_present :: "payload \<Rightarrow> bool" where
  "all_present req =
     (list_all (\<lambda>v. v \<noteq> None \<and> v \<noteq> Some [])
        [fullName req, email req, phoneNumber req, gender req, dateOfBirth req,
         address req, password req]
      \<and> latitude req \<noteq> None \<and> longitude req \<noteq> None)"

fun fails :: "rule \<Rightarrow> payload \<Rightarrow> bool" where
  "fails MissingFields req = (\<not> all_present req)"
| "fails InvalidEmail req = (case email req of None \<Rightarrow> True | Some s \<Rightarrow> \<not> email_shape s)"
| "fails InvalidPhone req = (case phoneNumber req of None \<Rightarrow> True | Some s \<Rightarrow> \<not> ten_digits s)"
| "fails PasswordMismatch req = (password req \<noteq> confirmPassword req)"
| "fails PasswordTooShort req = (case password req of None \<Rightarrow> True | Some s \<Rightarrow> length s < 6)"

definition first_failing :: "payload \<Rightarrow> rule option" where
  "first_failing req = find (\<lambda>r. fails r req) precedence"

section \<open>Concrete requests and environments\<close>

text \<open>The valid payload of the specification's end-to-end example.\<close>

definition jane :: payload where
  "jane =
     \<lparr>fullName = Some (js ''Jane Doe''), email = Some (js ''jane@example.com''),
      phoneNumber = Some (js ''1234567890''), gender = Some (js ''F''),
      dateOfBirth = Some (js ''1990-01-01''), address = Some (js ''1 Main St''),
      password = Some (js ''secret1''), latitude = Some 12.34, longitude = Some 56.78,
      deviceInfo = None, confirmPassword = Some (js ''secret1'')\<rparr>"

definition env_up :: env where
  "env_up =
     \<lparr>FROM_EMAIL = Some (js ''noreply@example.com''),
      EMAIL_USER = Some (js ''noreply@example.com''),
      db_save = (\<lambda>c. None), db_findOne = (\<lambda>p. None), send_mail = (\<lambda>m. None)\<rparr>"

definition env_mail_down :: env where
  "env_mail_down = env_up\<lparr>send_mail := (\<lambda>m. Some (Error (js ''Unauthorized'')))\<rparr>"

definition env_db_down :: env where
  "env_db_down =
     env_up\<lparr>db_save := (\<lambda>c. Some (Error (js ''connection refused''))),
            db_findOne := (\<lambda>p. Some (Error (js ''connection refused'')))\<rparr>"

definition world0 :: world where
  "world0 = \<lparr>db = [], console = [], calls = []\<rparr>"

text \<open>Variations of the valid payload, and a database that already holds her record.\<close>

definition jane_bad_email :: payload where
  "jane_bad_email = jane\<lparr>email := Some (js ''foo@bar'')\<rparr>"

definition jane_equator :: payload where
  "jane_equator = jane\<lparr>latitude := Some 0\<rparr>"

definition jane_meridian_mismatch :: payload where
  "jane_meridian_mismatch = jane\<lparr>longitude := Some 0, confirmPassword := Some (js ''secret2'')\<rparr>"

definition jane_equator_no_confirm :: payload where
  "jane_equator_no_confirm = jane\<lparr>latitude := Some 0, confirmPassword := None\<rparr>"

definition world_jane :: world where
  "world_jane = \<lparr>db = [new_Customer jane], console = [], calls = []\<rparr>"

section \<open>The matcher decides the language of a pattern\<close>

lemma nullable_lang: "nullable r \<longleftrightarrow> [] \<in> lang r"
  by (induction r) (auto simp: conc_def intro: star.intros)

lemma star_cons_split:
  assumes "x \<in> star A" and "x = c # w"
  shows "\<exists>u v. w = u @ v \<and> c # u \<in> A \<and> v \<in> star A"
  using assms
proof (induction arbitrary: w rule: star.induct)
  case star_empty
  then show ?case by simp
next
  case (star_step u v)
  show ?case
  proof (cases u)
    case Nil
    with star_step show ?thesis by simp
  next
    case (Cons a u')
    with star_step.prems have "a = c" and "w = u' @ v" by simp_all
    with Cons star_step.hyps show ?thesis by blast
  qed
qed

lemma star_cons_iff:
  "c # w \<in> star A \<longleftrightarrow> (\<exists>u v. w = u @ v \<and> c # u \<in> A \<and> v \<in> star A)"
proof
  assume "c # w \<in> star A"
  then show "\<exists>u v. w = u @ v \<and> c # u \<in> A \<and> v \<in> star A"
    by (rule star_cons_split) simp
next
  assume "\<exists>u v. w = u @ v \<and> c # u \<in> A \<and> v \<in> star A"
  then obtain u v where "w = u @ v" "c # u \<in> A" "v \<in> star A" by blast
  then show "c # w \<in> star A"
    using star_step [of "c # u" A v] by simp
qed

lemma cons_conc_iff:
  "c # w \<in> conc A B \<longleftrightarrow>
     (\<exists>u v. w = u @ v \<and> c # u \<in> A \<and> v \<in> B) \<or> ([] \<in> A \<and> c # w \<in> B)"
  unfolding conc_def
  by (auto simp: append_eq_Cons_conv Cons_eq_append_conv)

lemma deriv_lang: "w \<in> lang (deriv c r) \<longleftrightarrow> c # w \<in> lang r"
proof (induction r arbitrary: w)
  case (Seq r s)
  then show ?case
    by (auto simp: cons_conc_iff nullable_lang) (auto simp: conc_def)
next
  case (Star r)
  then show ?case
    by (auto simp: star_cons_iff conc_def)
qed auto

lemma matches_lang: "matches r w \<longleftrightarrow> w \<in> lang r"
  by (induction w arbitrary: r) (simp_all add: nullable_lang deriv_lang)

subsection \<open>The two patterns of the source\<close>

lemma star_Class: "star {[c] | c. p c} = {w. list_all p w}"
proof (rule set_eqI, rule iffI)
  fix w assume "w \<in> star {[c] | c. p c}"
  then show "w \<in> {w. list_all p w}"
    by (induction rule: star.induct) auto
next
  fix w assume "w \<in> {w. list_all p w}"
  then have "list_all p w" by simp
  then show "w \<in> star {[c] | c. p c}"
  proof (induction w)
    case Nil
    show ?case by (rule star_empty)
  next
    case (Cons a w)
    then have "[a] \<in> {[c] | c. p c}" and "w \<in> star {[c] | c. p c}" by simp_all
    then have "[a] @ w \<in> star {[c] | c. p c}" by (rule star_step)
    then show ?case by simp
  qed
qed

lemma lang_Plus_Class: "lang (Plus (Class p)) = {w. w \<noteq> [] \<and> list_all p w}"
  by (auto simp: Plus_def star_Class conc_def neq_Nil_conv) (metis append_Cons append_Nil)

lemma lang_Rep_Class: "lang (Rep n (Class p)) = {w. length w = n \<and> list_all p w}"
proof (induction n)
  case 0
  show ?case by auto
next
  case (Suc n)
  show ?case
    unfolding Rep.simps lang.simps(5) Suc
    by (auto simp: conc_def length_Suc_conv) (metis append_Cons append_Nil)
qed

lemma lang_Chr: "lang (Chr a) = {[of_char a]}"
  by (auto simp: Chr_def)

lemma matches_phone_re: "matches phone_re s \<longleftrightarrow> ten_digits s"
  by (simp add: matches_lang phone_re_def lang_Rep_Class ten_digits_def)

lemma part_lang: "w \<in> lang (Plus (Class not_space_at)) \<longleftrightarrow> part w"
  by (simp add: lang_Plus_Class part_def not_space_at_def [abs_def])

lemma matches_email_re: "matches email_re s \<longleftrightarrow> email_shape s"
  unfolding matches_lang email_re_def lang.simps(5) lang_Chr conc_def email_shape_def
  by (auto simp: part_lang; blast)

section \<open>Validation and the rules of the specification\<close>

lemma regex_test_email: "regex_test email_re (Some s) \<longleftrightarrow> email_shape s"
  by (simp add: regex_test_def ToString_def matches_email_re)

lemma regex_test_phone: "regex_test phone_re (Some s) \<longleftrightarrow> ten_digits s"
  by (simp add: regex_test_def ToString_def matches_phone_re)

lemma not_falsy_str: "\<not> falsy_str v \<longleftrightarrow> (\<exists>s. v = Some s \<and> s \<noteq> [])"
  by (cases v) (simp_all add: falsy_str_def)

lemma not_falsy_num: "\<not> falsy_num v \<longleftrightarrow> (\<exists>x. v = Some x \<and> x \<noteq> 0)"
  by (cases v) (simp_all add: falsy_num_def)

text \<open>
  The handler's first check against the first rule: \<open>!field\<close> holds of a missing or
  empty field, and of a coordinate that is zero.
\<close>

lemma required_check:
  "(falsy_str (fullName req) \<or> falsy_str (email req) \<or> falsy_str (phoneNumber req)
      \<or> falsy_str (gender req) \<or> falsy_str (dateOfBirth req) \<or> falsy_str (address req)
      \<or> falsy_str (password req) \<or> falsy_num (latitude req) \<or> falsy_num (longitude req))
   \<longleftrightarrow> (\<not> all_present req \<or> latitude req = Some 0 \<or> longitude req = Some 0)"
  by (auto simp: all_present_def falsy_str_def falsy_num_def split: option.splits)

lemma validation_required:
  assumes "\<not> all_present req \<or> latitude req = Some 0 \<or> longitude req = Some 0"
  shows "validation req = Inr (Some (bad_request MissingFields))"
proof -
  from assms have "falsy_str (fullName req) \<or> falsy_str (email req) \<or> falsy_str (phoneNumber req)
      \<or> falsy_str (gender req) \<or> falsy_str (dateOfBirth req) \<or> falsy_str (address req)
      \<or> falsy_str (password req) \<or> falsy_num (latitude req) \<or> falsy_num (longitude req)"
    by (simp only: required_check)
  then show ?thesis
    unfolding validation_def by (simp add: bad_request_def res_json_def)
qed

lemma validation_checked:
  assumes "all_present req" and "latitude req \<noteq> Some 0" and "longitude req \<noteq> Some 0"
  shows "validation req =
      (if \<not> regex_test email_re (email req)
      then Inr (Some (res_json 400 (ErrorBody (js ''Invalid email format''))))
      else if \<not> regex_test phone_re (phoneNumber req)
      then Inr (Some (res_json 400 (ErrorBody (js ''Phone number must be 10 digits''))))
      else if password req \<noteq> confirmPassword req
      then Inr (Some (res_json 400 (ErrorBody (js ''Passwords do not match''))))
      else (case js_length (password req) of
              Inl error \<Rightarrow> Inl error
            | Inr n \<Rightarrow>
                if n < 6
                then Inr (Some (res_json 400 (ErrorBody (js ''Password must be at least 6 characters''))))
                else Inr None))"
proof -
  from assms have "\<not> (falsy_str (fullName req) \<or> falsy_str (email req) \<or> falsy_str (phoneNumber req)
      \<or> falsy_str (gender req) \<or> falsy_str (dateOfBirth req) \<or> falsy_str (address req)
      \<or> falsy_str (password req) \<or> falsy_num (latitude req) \<or> falsy_num (longitude req))"
    by (simp only: required_check) simp
  then show ?thesis
    unfolding validation_def by (rule if_not_P)
qed

text \<open>
  Away from zero coordinates, validation answers with the first rule of the
  specification that fails.
\<close>

lemma validation_rules:
  assumes "latitude req \<noteq> Some 0" and "longitude req \<noteq> Some 0"
  shows "validation req = Inr (map_option bad_request (first_failing req))"
proof (cases "all_present req")
  case False
  then show ?thesis
    by (simp add: validation_required first_failing_def precedence_def)
next
  case True
  then obtain em ph pw where em: "email req = Some em" and ph: "phoneNumber req = Some ph"
    and pw: "password req = Some pw"
    by (auto simp: all_present_def)
  note v = validation_checked [OF True assms]
  show ?thesis
  proof (cases "password req = confirmPassword req")
    case same: True
    with pw have cp: "confirmPassword req = Some pw" by simp
    from True show ?thesis
      unfolding v first_failing_def precedence_def
      by (simp add: em ph pw cp regex_test_email regex_test_phone js_length_def bad_request_def
          res_json_def)
  next
    case differ: False
    from True differ show ?thesis
      unfolding v first_failing_def precedence_def
      by (simp add: em ph regex_test_email regex_test_phone bad_request_def res_json_def)
  qed
qed

text \<open>Validation never throws: \<open>password.length\<close> is only read of a string.\<close>

lemma validation_cases:
  "validation req = Inr None \<or> (\<exists>r. validation req = Inr (Some (bad_request r)))"
proof (cases "latitude req = Some 0 \<or> longitude req = Some 0")
  case True
  then have "validation req = Inr (Some (bad_request MissingFields))"
    by (simp add: validation_required)
  then show ?thesis by blast
next
  case False
  then have "validation req = Inr (map_option bad_request (first_failing req))"
    by (simp add: validation_rules)
  then show ?thesis by (cases "first_failing req") auto
qed

lemma mismatch_before_length:
  assumes "latitude req \<noteq> Some 0" and "longitude req \<noteq> Some 0" and "all_present req"
    and "\<not> fails InvalidEmail req" and "\<not> fails InvalidPhone req"
    and "password req \<noteq> confirmPassword req"
  shows "validation req = Inr (Some (bad_request PasswordMismatch))"
proof -
  from assms(3-6) have "first_failing req = Some PasswordMismatch"
    by (simp add: first_failing_def precedence_def)
  with assms(1,2) show ?thesis by (simp add: validation_rules)
qed

lemma short_password:
  assumes "latitude req \<noteq> Some 0" and "longitude req \<noteq> Some 0" and "all_present req"
    and "\<not> fails InvalidEmail req" and "\<not> fails InvalidPhone req"
    and "password req = Some pw" and "confirmPassword req = Some pw" and "length pw < 6"
  shows "validation req = Inr (Some (bad_request PasswordTooShort))"
proof -
  from assms(3-8) have "first_failing req = Some PasswordTooShort"
    by (simp add: first_failing_def precedence_def)
  with assms(1,2) show ?thesis by (simp add: validation_rules)
qed

section \<open>Evaluating the model on concrete requests\<close>

lemma Rep_numeral: "Rep (numeral n) r = Seq r (Rep (pred_numeral n) r)"
  by (simp add: numeral_eq_Suc)

lemmas eval_defs =
  js_def falsy_str_def falsy_num_def ToString_def regex_test_def email_re_def phone_re_def
  Plus_def Chr_def Rep_numeral not_space_at_def is_space_def is_digit_def js_length_def
  validation_def res_json_def

lemma validation_jane: "validation jane = Inr None"
  by (simp add: jane_def eval_defs)

lemmas route_defs =
  post_api_customers_sendgrid_def post_api_customers_nodemailer_def post_api_customers_plain_def
  get_api_customers_phone_def findOne_def save_def catch_customers_def
  sendConfirmationEmail_sendgrid_def sendConfirmationEmail_nodemailer_def
  called_def console_log_def console_warn_def console_error_def

section \<open>The routes, path by path\<close>

lemma validation_Inr: "\<exists>r. validation req = Inr r"
  using validation_cases [of req] by auto

lemma rule_message_inject: "rule_message r = rule_message r' \<longleftrightarrow> r = r'"
  by (cases r; cases r'; simp add: js_def)

lemma bad_request_inject: "bad_request r = bad_request r' \<longleftrightarrow> r = r'"
  by (simp add: bad_request_def rule_message_inject)

lemma status_bad_request: "status (bad_request r) = 400"
  by (simp add: bad_request_def)

lemma sendgrid_rejected:
  "validation req = Inr (Some res) \<Longrightarrow> post_api_customers_sendgrid e req w = (res, w)"
  by (simp add: post_api_customers_sendgrid_def)

lemma nodemailer_rejected:
  "validation req = Inr (Some res) \<Longrightarrow> post_api_customers_nodemailer e req w = (res, w)"
  by (simp add: post_api_customers_nodemailer_def)

lemma plain_rejected:
  "validation req = Inr (Some res) \<Longrightarrow> post_api_customers_plain e req w = (res, w)"
  by (simp add: post_api_customers_plain_def)

lemma sendgrid_save_failed:
  "validation req = Inr None \<Longrightarrow> db_save e (new_Customer req) = Some err \<Longrightarrow>
     post_api_customers_sendgrid e req w = catch_customers err (called (Save (new_Customer req)) w)"
  by (simp add: post_api_customers_sendgrid_def save_def)

lemma nodemailer_save_failed:
  "validation req = Inr None \<Longrightarrow> db_save e (new_Customer req) = Some err \<Longrightarrow>
     post_api_customers_nodemailer e req w = catch_customers err (called (Save (new_Customer req)) w)"
  by (simp add: post_api_customers_nodemailer_def save_def)

lemma plain_save_failed:
  "validation req = Inr None \<Longrightarrow> db_save e (new_Customer req) = Some err \<Longrightarrow>
     post_api_customers_plain e req w = catch_customers err (called (Save (new_Customer req)) w)"
  by (simp add: post_api_customers_plain_def save_def)

lemma falsy_failed_message: "\<not> falsy_str (Some (js ''Failed to send confirmation email''))"
  by (simp add: falsy_str_def js_def)

lemma sendgrid_saved:
  assumes "validation req = Inr None" and "db_save e (new_Customer req) = None"
  shows "fst (post_api_customers_sendgrid e req w) =
           (case send_mail e (msg_sendgrid e (email req) (fullName req)) of
              None \<Rightarrow> res_json 201 (MessageBody
                        (js ''Customer registered successfully and confirmation email sent''))
            | Some err \<Rightarrow> res_json 201 (MessageBody
                        (js ''Customer registered successfully, but failed to send confirmation email'')))"
    and "db (snd (post_api_customers_sendgrid e req w)) = db w @ [new_Customer req]"
    and "calls (snd (post_api_customers_sendgrid e req w)) =
           calls w @ [Save (new_Customer req), Send (msg_sendgrid e (email req) (fullName req))]"
  using assms falsy_failed_message
  by (auto simp: post_api_customers_sendgrid_def save_def sendConfirmationEmail_sendgrid_def
      called_def console_log_def console_warn_def console_error_def Let_def falsy_str_def
      split: option.splits)

lemma nodemailer_saved:
  assumes "validation req = Inr None" and "db_save e (new_Customer req) = None"
  shows "fst (post_api_customers_nodemailer e req w) =
           (case send_mail e (mailOptions_nodemailer e (email req) (fullName req)) of
              None \<Rightarrow> res_json 201 (MessageBody
                        (js ''Customer registered successfully and confirmation email sent''))
            | Some err \<Rightarrow> res_json 500 (ErrorBody
                        (js ''Server error: '' @ js ''Failed to send confirmation email'')))"
    and "db (snd (post_api_customers_nodemailer e req w)) = db w @ [new_Customer req]"
    and "calls (snd (post_api_customers_nodemailer e req w)) =
           calls w @ [Save (new_Customer req), Send (mailOptions_nodemailer e (email req) (fullName req))]"
  using assms
  by (auto simp: post_api_customers_nodemailer_def save_def sendConfirmationEmail_nodemailer_def
      catch_customers_def called_def console_log_def console_error_def Let_def
      split: option.splits)

lemma plain_saved:
  assumes "validation req = Inr None" and "db_save e (new_Customer req) = None"
  shows "fst (post_api_customers_plain e req w) =
           res_json 201 (MessageBody (js ''Customer registered successfully''))"
    and "db (snd (post_api_customers_plain e req w)) = db w @ [new_Customer req]"
    and "calls (snd (post_api_customers_plain e req w)) = calls w @ [Save (new_Customer req)]"
  using assms
  by (auto simp: post_api_customers_plain_def save_def called_def)

lemma find_None_list_all: "find P xs = None \<longleftrightarrow> list_all (\<lambda>x. \<not> P x) xs"
  by (induction xs) auto

lemma get_found:
  "db_findOne e p = None \<Longrightarrow> find (\<lambda>c. phoneNumber c = Some p) (db w) = Some c \<Longrightarrow>
     get_api_customers_phone e p w = (res_json 200 (Document c), called (FindOne p) w)"
  by (simp add: get_api_customers_phone_def findOne_def called_def)

lemma get_not_found:
  "db_findOne e p = None \<Longrightarrow> find (\<lambda>c. phoneNumber c = Some p) (db w) = None \<Longrightarrow>
     get_api_customers_phone e p w =
       (res_json 404 (ErrorBody (js ''Customer not found'')), called (FindOne p) w)"
  by (simp add: get_api_customers_phone_def findOne_def called_def)

lemma get_failed:
  "db_findOne e p = Some err \<Longrightarrow>
     get_api_customers_phone e p w =
       (res_json 500 (ErrorBody (js ''Server error: '' @ message err)),
        console_error [js ''Error fetching customer:'', message err] (called (FindOne p) w))"
  by (simp add: get_api_customers_phone_def findOne_def called_def)

lemma find_append_None: "find P xs = None \<Longrightarrow> find P (xs @ ys) = find P ys"
  by (induction xs) (auto split: if_splits)

lemmas spec_eval = matches_email_re [symmetric] matches_phone_re [symmetric]
  first_failing_def precedence_def

lemma sendgrid_soft_success:
  "validation req = Inr None \<Longrightarrow> db_save e (new_Customer req) = None \<Longrightarrow>
     status (fst (post_api_customers_sendgrid e req w)) = 201"
  by (simp add: sendgrid_saved(1) res_json_def split: option.splits)

section \<open>The claims\<close>

text \<open>
  Claim C1. When \<open>customer.save\<close> succeeds the workflow answers 201 whether or not the
  confirmation mail could be sent; a failed send is never turned into a 500.

  The SendGrid variant does so (\<open>sendgrid_soft_success\<close>, for every request, environment
  and world). The nodemailer variant does not: for the valid payload of the
  specification's example, with the database accepting the write and the mail transport
  rejecting the message, \<open>sendConfirmationEmail\<close> throws, the handler's \<open>catch\<close> block
  answers 500 with \<open>Server error: Failed to send confirmation email\<close>, and the customer
  is in the database all the same. On the same request the SendGrid variant answers 201.
\<close>

theorem nodemailer_mail_failure_is_server_error:
  "validation jane = Inr None
   \<and> db_save env_mail_down (new_Customer jane) = None
   \<and> send_mail env_mail_down (mailOptions_nodemailer env_mail_down (email jane) (fullName jane))
       = Some (Error (js ''Unauthorized''))
   \<and> fst (post_api_customers_nodemailer env_mail_down jane world0) =
        \<lparr>status = 500, body = ErrorBody (js ''Server error: Failed to send confirmation email'')\<rparr>
   \<and> db (snd (post_api_customers_nodemailer env_mail_down jane world0)) = [new_Customer jane]
   \<and> fst (post_api_customers_sendgrid env_mail_down jane world0) =
        \<lparr>status = 201, body = MessageBody
           (js ''Customer registered successfully, but failed to send confirmation email'')\<rparr>"
  by (simp add: route_defs validation_jane env_mail_down_def env_up_def world0_def Let_def js_def
      res_json_def falsy_str_def)

text \<open>
  Claim C2. Validation answers with the first rule that fails, in the order
  MissingFields, InvalidEmail, InvalidPhone, PasswordMismatch, PasswordTooShort, or lets
  the request pass when none fails; when the two passwords differ and both have six
  characters or more the answer is PasswordMismatch.

  The handler's first check is \<open>!field\<close>, which also holds of a coordinate that is zero.
  Take the valid payload of the specification's example with \<open>longitude: 0\<close> and two
  different passwords of seven characters: every required field is present, the first
  rule that fails is PasswordMismatch, and the handler answers 400 \<open>All fields are
  required\<close>. Away from zero coordinates validation does answer with the first rule
  that fails (\<open>validation_rules\<close>, \<open>mismatch_before_length\<close>, \<open>short_password\<close>).
\<close>

theorem zero_longitude_breaks_precedence:
  "all_present jane_meridian_mismatch
   \<and> longitude jane_meridian_mismatch = Some 0
   \<and> password jane_meridian_mismatch = Some (js ''secret1'')
   \<and> confirmPassword jane_meridian_mismatch = Some (js ''secret2'')
   \<and> length (js ''secret1'') = 7 \<and> length (js ''secret2'') = 7
   \<and> first_failing jane_meridian_mismatch = Some PasswordMismatch
   \<and> validation jane_meridian_mismatch =
       Inr (Some \<lparr>status = 400, body = ErrorBody (js ''All fields are required'')\<rparr>)"
  by (simp add: jane_meridian_mismatch_def jane_def all_present_def spec_eval eval_defs)

text \<open>
  Claim C3. MissingFields is returned exactly when a required field is missing or empty;
  a payload with every required field present, latitude 0 included, is not rejected as
  MissingFields.

  The handler tests \<open>!latitude\<close>, and the number 0 is falsy: the valid payload of the
  specification's example with \<open>latitude: 0\<close> has every required field present and is
  answered 400 \<open>All fields are required\<close>.
\<close>

theorem zero_latitude_rejected_as_missing:
  "all_present jane_equator
   \<and> latitude jane_equator = Some 0
   \<and> validation jane_equator = Inr (Some \<lparr>status = 400, body = ErrorBody (js ''All fields are required'')\<rparr>)"
  by (simp add: jane_equator_def jane_def all_present_def eval_defs)

text \<open>
  Claim C4. When validation passes and the write to the database fails, the answer is
  500 with \<open>Server error: \<close> followed by the error's message, in each of the three
  variants; the only call made to a collaborator is the \<open>save\<close>, so no mail is
  attempted, and nothing is stored.
\<close>

theorem persistence_failure_is_server_error:
  "validation req = Inr None \<Longrightarrow> db_save e (new_Customer req) = Some err \<Longrightarrow>
     fst (post_api_customers_sendgrid e req w) =
       \<lparr>status = 500, body = ErrorBody (js ''Server error: '' @ message err)\<rparr>
     \<and> fst (post_api_customers_nodemailer e req w) =
       \<lparr>status = 500, body = ErrorBody (js ''Server error: '' @ message err)\<rparr>
     \<and> fst (post_api_customers_plain e req w) =
       \<lparr>status = 500, body = ErrorBody (js ''Server error: '' @ message err)\<rparr>
     \<and> calls (snd (post_api_customers_sendgrid e req w)) = calls w @ [Save (new_Customer req)]
     \<and> calls (snd (post_api_customers_nodemailer e req w)) = calls w @ [Save (new_Customer req)]
     \<and> calls (snd (post_api_customers_plain e req w)) = calls w @ [Save (new_Customer req)]
     \<and> db (snd (post_api_customers_sendgrid e req w)) = db w
     \<and> db (snd (post_api_customers_nodemailer e req w)) = db w
     \<and> db (snd (post_api_customers_plain e req w)) = db w"
  by (simp add: sendgrid_save_failed nodemailer_save_failed plain_save_failed
      catch_customers_def called_def console_error_def res_json_def)

theorem persistence_failure_is_server_error_witness:
  "validation jane = Inr None
   \<and> db_save env_db_down (new_Customer jane) = Some (Error (js ''connection refused''))
   \<and> fst (post_api_customers_sendgrid env_db_down jane world0) =
        \<lparr>status = 500, body = ErrorBody (js ''Server error: connection refused'')\<rparr>
   \<and> fst (post_api_customers_nodemailer env_db_down jane world0) =
        \<lparr>status = 500, body = ErrorBody (js ''Server error: connection refused'')\<rparr>
   \<and> fst (post_api_customers_plain env_db_down jane world0) =
        \<lparr>status = 500, body = ErrorBody (js ''Server error: connection refused'')\<rparr>
   \<and> calls (snd (post_api_customers_sendgrid env_db_down jane world0)) = [Save (new_Customer jane)]
   \<and> calls (snd (post_api_customers_nodemailer env_db_down jane world0)) = [Save (new_Customer jane)]
   \<and> calls (snd (post_api_customers_plain env_db_down jane world0)) = [Save (new_Customer jane)]"
proof -
  have s: "db_save env_db_down (new_Customer jane) = Some (Error (js ''connection refused''))"
    by (simp add: env_db_down_def env_up_def)
  show ?thesis
    using persistence_failure_is_server_error [OF validation_jane s, of world0] s validation_jane
    by (simp add: world0_def js_def)
qed



text \<open>
  Claim C6. Every variant answers 201 \<open>Customer registered successfully and confirmation
  email sent\<close> on full success, and 201 \<open>Customer registered successfully, but failed to
  send confirmation email\<close> when the mail fails after the write.

  As stated this fails on the variant that sends no mail: its only message of success is
  \<open>Customer registered successfully\<close>.
\<close>

theorem plain_variant_message_counterexample:
  "validation jane = Inr None
   \<and> db_save env_up (new_Customer jane) = None
   \<and> fst (post_api_customers_plain env_up jane world0) =
        \<lparr>status = 201, body = MessageBody (js ''Customer registered successfully'')\<rparr>
   \<and> fst (post_api_customers_plain env_up jane world0) \<noteq>
        \<lparr>status = 201, body = MessageBody (js ''Customer registered successfully and confirmation email sent'')\<rparr>"
  by (simp add: route_defs validation_jane env_up_def world0_def Let_def js_def res_json_def)

text \<open>
  Claim C6, amended. When validation passes and the write succeeds: the SendGrid variant
  answers 201 with \<open>Customer registered successfully and confirmation email sent\<close> when
  the mail is sent and 201 with \<open>Customer registered successfully, but failed to send
  confirmation email\<close> when it is not; the nodemailer variant answers 201 with the first
  of these messages when the mail is sent; the variant that sends no mail answers 201
  with \<open>Customer registered successfully\<close>.
\<close>

theorem registration_messages_by_variant:
  "validation req = Inr None \<Longrightarrow> db_save e (new_Customer req) = None \<Longrightarrow>
     (send_mail e (msg_sendgrid e (email req) (fullName req)) = None \<longrightarrow>
        fst (post_api_customers_sendgrid e req w) =
          \<lparr>status = 201, body = MessageBody
             (js ''Customer registered successfully and confirmation email sent'')\<rparr>)
     \<and> (send_mail e (msg_sendgrid e (email req) (fullName req)) \<noteq> None \<longrightarrow>
        fst (post_api_customers_sendgrid e req w) =
          \<lparr>status = 201, body = MessageBody
             (js ''Customer registered successfully, but failed to send confirmation email'')\<rparr>)
     \<and> (send_mail e (mailOptions_nodemailer e (email req) (fullName req)) = None \<longrightarrow>
        fst (post_api_customers_nodemailer e req w) =
          \<lparr>status = 201, body = MessageBody
             (js ''Customer registered successfully and confirmation email sent'')\<rparr>)
     \<and> fst (post_api_customers_plain e req w) =
          \<lparr>status = 201, body = MessageBody (js ''Customer registered successfully'')\<rparr>"
  by (auto simp: sendgrid_saved(1) nodemailer_saved(1) plain_saved(1) res_json_def)

theorem registration_messages_by_variant_witness:
  "validation jane = Inr None
   \<and> db_save env_up (new_Customer jane) = None \<and> db_save env_mail_down (new_Customer jane) = None
   \<and> fst (post_api_customers_sendgrid env_up jane world0) =
        \<lparr>status = 201, body = MessageBody
           (js ''Customer registered successfully and confirmation email sent'')\<rparr>
   \<and> fst (post_api_customers_sendgrid env_mail_down jane world0) =
        \<lparr>status = 201, body = MessageBody
           (js ''Customer registered successfully, but failed to send confirmation email'')\<rparr>
   \<and> fst (post_api_customers_nodemailer env_up jane world0) =
        \<lparr>status = 201, body = MessageBody
           (js ''Customer registered successfully and confirmation email sent'')\<rparr>
   \<and> fst (post_api_customers_plain env_up jane world0) =
        \<lparr>status = 201, body = MessageBody (js ''Customer registered successfully'')\<rparr>"
proof -
  have up: "db_save env_up (new_Customer jane) = None" "send_mail env_up m = None" for m
    by (simp_all add: env_up_def)
  have down: "db_save env_mail_down (new_Customer jane) = None" "send_mail env_mail_down m \<noteq> None" for m
    by (simp_all add: env_mail_down_def env_up_def)
  show ?thesis
    using registration_messages_by_variant [OF validation_jane up(1), of world0]
      registration_messages_by_variant [OF validation_jane down(1), of world0]
      validation_jane up down
    by simp
qed

text \<open>
  Claim C7. The lookup by phone number compares the stored \<open>phoneNumber\<close> with the
  parameter as it is. When the query is not rejected, the answer is 404 \<open>Customer not
  found\<close> exactly when no stored customer has that very phone number, a 200 answer
  carries a stored customer whose phone number is the parameter, and the answer is never
  500; 500 with \<open>Server error: \<close> and the error's message is the answer when the query
  is rejected. The handler hands the parameter to \<open>findOne\<close> as it received it, and
  changes nothing in the database.
\<close>

theorem lookup_exact_match:
  "(db_findOne e p = None \<longrightarrow>
      (list_all (\<lambda>c. phoneNumber c \<noteq> Some p) (db w) \<longrightarrow>
         fst (get_api_customers_phone e p w) =
           \<lparr>status = 404, body = ErrorBody (js ''Customer not found'')\<rparr>)
      \<and> (status (fst (get_api_customers_phone e p w)) = 404
           \<longleftrightarrow> list_all (\<lambda>c. phoneNumber c \<noteq> Some p) (db w))
      \<and> (\<forall>c. fst (get_api_customers_phone e p w) = \<lparr>status = 200, body = Document c\<rparr>
            \<longrightarrow> c \<in> set (db w) \<and> phoneNumber c = Some p)
      \<and> status (fst (get_api_customers_phone e p w)) \<noteq> 500)
   \<and> (db_findOne e p = Some err \<longrightarrow>
        fst (get_api_customers_phone e p w) =
          \<lparr>status = 500, body = ErrorBody (js ''Server error: '' @ message err)\<rparr>)
   \<and> calls (snd (get_api_customers_phone e p w)) = calls w @ [FindOne p]
   \<and> db (snd (get_api_customers_phone e p w)) = db w"
proof (intro conjI impI allI)
  assume ok: "db_findOne e p = None"
  {
    assume "list_all (\<lambda>c. phoneNumber c \<noteq> Some p) (db w)"
    then have "find (\<lambda>c. phoneNumber c = Some p) (db w) = None"
      by (simp add: find_None_list_all)
    then show "fst (get_api_customers_phone e p w) =
        \<lparr>status = 404, body = ErrorBody (js ''Customer not found'')\<rparr>"
      by (simp add: get_not_found [OF ok] res_json_def)
  }
  show "status (fst (get_api_customers_phone e p w)) = 404
      \<longleftrightarrow> list_all (\<lambda>c. phoneNumber c \<noteq> Some p) (db w)"
  proof (cases "find (\<lambda>c. phoneNumber c = Some p) (db w)")
    case None
    then show ?thesis
      by (simp add: get_not_found [OF ok] res_json_def find_None_list_all [symmetric])
  next
    case (Some c)
    then show ?thesis
      by (simp add: get_found [OF ok] res_json_def find_None_list_all [symmetric])
  qed
  show "status (fst (get_api_customers_phone e p w)) \<noteq> 500"
    by (cases "find (\<lambda>c. phoneNumber c = Some p) (db w)")
      (simp_all add: get_not_found [OF ok] get_found [OF ok] res_json_def)
  {
    fix c
    assume r: "fst (get_api_customers_phone e p w) = \<lparr>status = 200, body = Document c\<rparr>"
    then have "find (\<lambda>c. phoneNumber c = Some p) (db w) = Some c"
      by (cases "find (\<lambda>c. phoneNumber c = Some p) (db w)")
        (simp_all add: get_not_found [OF ok] get_found [OF ok] res_json_def)
    then show "c \<in> set (db w)" and "phoneNumber c = Some p"
      by (auto simp: find_Some_iff)
  }
next
  assume "db_findOne e p = Some err"
  then show "fst (get_api_customers_phone e p w) =
      \<lparr>status = 500, body = ErrorBody (js ''Server error: '' @ message err)\<rparr>"
    by (simp add: get_failed res_json_def)
next
  show "calls (snd (get_api_customers_phone e p w)) = calls w @ [FindOne p]"
    by (simp add: get_api_customers_phone_def findOne_def called_def console_error_def Let_def
        split: option.splits)
next
  show "db (snd (get_api_customers_phone e p w)) = db w"
    by (simp add: get_api_customers_phone_def findOne_def called_def console_error_def Let_def
        split: option.splits)
qed

theorem lookup_exact_match_witness:
  "db_findOne env_up (js ''123456789'') = None
   \<and> fst (get_api_customers_phone env_up (js ''123456789'') world_jane) =
        \<lparr>status = 404, body = ErrorBody (js ''Customer not found'')\<rparr>
   \<and> fst (get_api_customers_phone env_up (js ''1234567890'') world_jane) =
        \<lparr>status = 200, body = Document (new_Customer jane)\<rparr>
   \<and> new_Customer jane \<in> set (db world_jane)
   \<and> phoneNumber (new_Customer jane) = Some (js ''1234567890'')
   \<and> fst (get_api_customers_phone env_db_down (js ''1234567890'') world_jane) =
        \<lparr>status = 500, body = ErrorBody (js ''Server error: connection refused'')\<rparr>
   \<and> calls (snd (get_api_customers_phone env_up (js ''123456789'') world_jane)) =
        [FindOne (js ''123456789'')]"
proof -
  have up: "db_findOne env_up q = None" for q
    by (simp add: env_up_def)
  have down: "db_findOne env_db_down q = Some (Error (js ''connection refused''))" for q
    by (simp add: env_db_down_def env_up_def)
  have none: "list_all (\<lambda>c. phoneNumber c \<noteq> Some (js ''123456789'')) (db world_jane)"
    by (simp add: world_jane_def new_Customer_def jane_def js_def)
  have found: "fst (get_api_customers_phone env_up (js ''1234567890'') world_jane) =
        \<lparr>status = 200, body = Document (new_Customer jane)\<rparr>"
    by (simp add: get_api_customers_phone_def findOne_def called_def env_up_def world_jane_def
        new_Customer_def jane_def res_json_def)
  have a: "fst (get_api_customers_phone env_up (js ''123456789'') world_jane) =
        \<lparr>status = 404, body = ErrorBody (js ''Customer not found'')\<rparr>"
    using lookup_exact_match [of env_up "js ''123456789''" world_jane] up none by blast
  have b: "new_Customer jane \<in> set (db world_jane)
      \<and> phoneNumber (new_Customer jane) = Some (js ''1234567890'')"
    using lookup_exact_match [of env_up "js ''1234567890''" world_jane] up found by blast
  have c: "fst (get_api_customers_phone env_db_down (js ''1234567890'') world_jane) =
        \<lparr>status = 500, body = ErrorBody (js ''Server error: '' @
           message (Error (js ''connection refused'')))\<rparr>"
    using lookup_exact_match [of env_db_down "js ''1234567890''" world_jane
        "Error (js ''connection refused'')"] down by blast
  have d: "js ''Server error: '' @ message (Error (js ''connection refused'')) =
      js ''Server error: connection refused''"
    by (simp add: js_def)
  have e: "calls (snd (get_api_customers_phone env_up (js ''123456789'') world_jane)) =
      [FindOne (js ''123456789'')]"
    using lookup_exact_match [of env_up "js ''123456789''" world_jane]
    by (simp add: world_jane_def)
  show ?thesis
    using a b c e up found unfolding d by blast
qed

text \<open>
  Claim C8. Validation is a function of the payload alone and has no effect. Whether a
  handler answers 400 does not depend on the environment or on the world it runs in;
  when it answers 400, the answer is the one validation computes from the payload, two
  runs in different environments and worlds give the same answer, and the world is
  returned unchanged.
\<close>

theorem validation_is_pure:
  "(status (fst (post_api_customers_sendgrid e1 req w1)) = 400
      \<longleftrightarrow> status (fst (post_api_customers_sendgrid e2 req w2)) = 400)
   \<and> (status (fst (post_api_customers_nodemailer e1 req w1)) = 400
      \<longleftrightarrow> status (fst (post_api_customers_nodemailer e2 req w2)) = 400)
   \<and> (status (fst (post_api_customers_plain e1 req w1)) = 400
      \<longleftrightarrow> status (fst (post_api_customers_plain e2 req w2)) = 400)
   \<and> (status (fst (post_api_customers_sendgrid e1 req w1)) = 400 \<longrightarrow>
        validation req = Inr (Some (fst (post_api_customers_sendgrid e1 req w1)))
        \<and> fst (post_api_customers_sendgrid e1 req w1) = fst (post_api_customers_sendgrid e2 req w2)
        \<and> snd (post_api_customers_sendgrid e1 req w1) = w1)
   \<and> (status (fst (post_api_customers_nodemailer e1 req w1)) = 400 \<longrightarrow>
        validation req = Inr (Some (fst (post_api_customers_nodemailer e1 req w1)))
        \<and> fst (post_api_customers_nodemailer e1 req w1) = fst (post_api_customers_nodemailer e2 req w2)
        \<and> snd (post_api_customers_nodemailer e1 req w1) = w1)
   \<and> (status (fst (post_api_customers_plain e1 req w1)) = 400 \<longrightarrow>
        validation req = Inr (Some (fst (post_api_customers_plain e1 req w1)))
        \<and> fst (post_api_customers_plain e1 req w1) = fst (post_api_customers_plain e2 req w2)
        \<and> snd (post_api_customers_plain e1 req w1) = w1)"
proof -
  have sg: "status (fst (post_api_customers_sendgrid e req w)) = 400
      \<longleftrightarrow> validation req \<noteq> Inr None" for e w
    using validation_cases [of req]
  proof (elim disjE exE)
    assume v: "validation req = Inr None"
    show ?thesis
      by (cases "db_save e (new_Customer req)")
        (simp_all add: v sendgrid_saved(1) [OF v] sendgrid_save_failed [OF v]
          catch_customers_def res_json_def split: option.splits)
  next
    fix r assume v: "validation req = Inr (Some (bad_request r))"
    show ?thesis by (simp add: v sendgrid_rejected [OF v] status_bad_request)
  qed
  have nm: "status (fst (post_api_customers_nodemailer e req w)) = 400
      \<longleftrightarrow> validation req \<noteq> Inr None" for e w
    using validation_cases [of req]
  proof (elim disjE exE)
    assume v: "validation req = Inr None"
    show ?thesis
      by (cases "db_save e (new_Customer req)")
        (simp_all add: v nodemailer_saved(1) [OF v] nodemailer_save_failed [OF v]
          catch_customers_def res_json_def split: option.splits)
  next
    fix r assume v: "validation req = Inr (Some (bad_request r))"
    show ?thesis by (simp add: v nodemailer_rejected [OF v] status_bad_request)
  qed
  have pl: "status (fst (post_api_customers_plain e req w)) = 400
      \<longleftrightarrow> validation req \<noteq> Inr None" for e w
    using validation_cases [of req]
  proof (elim disjE exE)
    assume v: "validation req = Inr None"
    show ?thesis
      by (cases "db_save e (new_Customer req)")
        (simp_all add: v plain_saved(1) [OF v] plain_save_failed [OF v]
          catch_customers_def res_json_def)
  next
    fix r assume v: "validation req = Inr (Some (bad_request r))"
    show ?thesis by (simp add: v plain_rejected [OF v] status_bad_request)
  qed
  have rej: "validation req \<noteq> Inr None \<Longrightarrow>
      validation req = Inr (Some (fst (post_api_customers_sendgrid e req w)))
      \<and> validation req = Inr (Some (fst (post_api_customers_nodemailer e req w)))
      \<and> validation req = Inr (Some (fst (post_api_customers_plain e req w)))
      \<and> snd (post_api_customers_sendgrid e req w) = w
      \<and> snd (post_api_customers_nodemailer e req w) = w
      \<and> snd (post_api_customers_plain e req w) = w" for e w
  proof -
    assume "validation req \<noteq> Inr None"
    with validation_cases [of req] obtain r where v: "validation req = Inr (Some (bad_request r))"
      by auto
    show ?thesis
      by (simp add: sendgrid_rejected [OF v] nodemailer_rejected [OF v] plain_rejected [OF v] v)
  qed
  have same: "validation req \<noteq> Inr None \<Longrightarrow>
      fst (post_api_customers_sendgrid e1 req w1) = fst (post_api_customers_sendgrid e2 req w2)
      \<and> fst (post_api_customers_nodemailer e1 req w1) = fst (post_api_customers_nodemailer e2 req w2)
      \<and> fst (post_api_customers_plain e1 req w1) = fst (post_api_customers_plain e2 req w2)"
  proof -
    assume "validation req \<noteq> Inr None"
    with validation_cases [of req] obtain r where v: "validation req = Inr (Some (bad_request r))"
      by auto
    show ?thesis
      by (simp add: sendgrid_rejected [OF v] nodemailer_rejected [OF v] plain_rejected [OF v])
  qed
  show ?thesis
    unfolding sg nm pl
    using rej [of e1 w1] same by blast
qed

theorem validation_is_pure_witness:
  "status (fst (post_api_customers_sendgrid env_up jane_bad_email world0)) = 400
   \<and> fst (post_api_customers_sendgrid env_up jane_bad_email world0) =
       fst (post_api_customers_sendgrid env_db_down jane_bad_email world_jane)
   \<and> snd (post_api_customers_sendgrid env_up jane_bad_email world0) = world0
   \<and> status (fst (post_api_customers_nodemailer env_up jane_bad_email world0)) = 400
   \<and> fst (post_api_customers_nodemailer env_up jane_bad_email world0) =
       fst (post_api_customers_nodemailer env_db_down jane_bad_email world_jane)
   \<and> snd (post_api_customers_nodemailer env_up jane_bad_email world0) = world0
   \<and> status (fst (post_api_customers_plain env_up jane_bad_email world0)) = 400
   \<and> fst (post_api_customers_plain env_up jane_bad_email world0) =
       fst (post_api_customers_plain env_db_down jane_bad_email world_jane)
   \<and> snd (post_api_customers_plain env_up jane_bad_email world0) = world0"
proof -
  have v: "validation jane_bad_email = Inr (Some (bad_request InvalidEmail))"
    by (simp add: jane_bad_email_def jane_def eval_defs bad_request_def)
  have s: "status (fst (post_api_customers_sendgrid env_up jane_bad_email world0)) = 400"
    "status (fst (post_api_customers_nodemailer env_up jane_bad_email world0)) = 400"
    "status (fst (post_api_customers_plain env_up jane_bad_email world0)) = 400"
    by (simp_all add: sendgrid_rejected [OF v] nodemailer_rejected [OF v] plain_rejected [OF v]
        status_bad_request)
  show ?thesis
    using validation_is_pure [of env_up jane_bad_email world0 env_db_down world_jane] s
    by blast
qed

text \<open>
  Claim C9. \<open>confirmPassword\<close> is not among the required fields: a payload whose nine
  required fields are present and well formed, with \<open>confirmPassword\<close> missing or
  empty, is not answered with MissingFields but with PasswordMismatch.

  The handler's first check \<open>!field\<close> also holds of a coordinate that is zero. Take the
  valid payload of the specification's example with \<open>latitude: 0\<close> and no
  \<open>confirmPassword\<close>: the nine required fields are present, the email and the phone
  number are well formed, the first rule that fails is PasswordMismatch, and the
  handler answers 400 \<open>All fields are required\<close>. Away from zero coordinates a missing
  or empty \<open>confirmPassword\<close> is answered with PasswordMismatch
  (\<open>mismatch_before_length\<close>).
\<close>

theorem zero_latitude_hides_mismatch:
  "all_present jane_equator_no_confirm
   \<and> latitude jane_equator_no_confirm = Some 0
   \<and> confirmPassword jane_equator_no_confirm = None
   \<and> first_failing jane_equator_no_confirm = Some PasswordMismatch
   \<and> validation jane_equator_no_confirm =
       Inr (Some \<lparr>status = 400, body = ErrorBody (js ''All fields are required'')\<rparr>)
   \<and> validation (jane_equator_no_confirm\<lparr>latitude := Some 12.34\<rparr>) =
       Inr (Some \<lparr>status = 400, body = ErrorBody (js ''Passwords do not match'')\<rparr>)"
  by (simp add: jane_equator_no_confirm_def jane_def all_present_def spec_eval eval_defs)

text \<open>
  Claim C10. A successful lookup answers 200 with the stored document as it is, and
  registration stores every field of the payload as it was submitted, the password
  included. The document found is the body of the answer, with nothing left out. A
  registration whose write succeeds appends to the database the document whose ten
  fields are the payload's ten fields, unchanged; and when no customer had the phone
  number before, looking it up after the registration answers 200 with exactly that
  document.
\<close>

theorem lookup_returns_stored_record:
  "doc = \<lparr>fullName = fullName req, email = email req, phoneNumber = phoneNumber req,
          gender = gender req, dateOfBirth = dateOfBirth req, address = address req,
          password = password req, latitude = latitude req, longitude = longitude req,
          deviceInfo = deviceInfo req\<rparr> \<Longrightarrow>
   (db_findOne e' p = None \<and> find (\<lambda>c. phoneNumber c = Some p) (db w) = Some c \<longrightarrow>
      fst (get_api_customers_phone e' p w) = \<lparr>status = 200, body = Document c\<rparr>
      \<and> c \<in> set (db w))
   \<and> (validation req = Inr None \<and> db_save e doc = None \<longrightarrow>
      db (snd (post_api_customers_sendgrid e req w)) = db w @ [doc]
      \<and> db (snd (post_api_customers_nodemailer e req w)) = db w @ [doc]
      \<and> db (snd (post_api_customers_plain e req w)) = db w @ [doc]
      \<and> password doc = password req)
   \<and> (validation req = Inr None \<and> db_save e doc = None
      \<and> phoneNumber req = Some p \<and> list_all (\<lambda>c. phoneNumber c \<noteq> Some p) (db w)
      \<and> db_findOne e' p = None \<longrightarrow>
      fst (get_api_customers_phone e' p (snd (post_api_customers_sendgrid e req w))) =
        \<lparr>status = 200, body = Document doc\<rparr>
      \<and> fst (get_api_customers_phone e' p (snd (post_api_customers_nodemailer e req w))) =
        \<lparr>status = 200, body = Document doc\<rparr>
      \<and> fst (get_api_customers_phone e' p (snd (post_api_customers_plain e req w))) =
        \<lparr>status = 200, body = Document doc\<rparr>)"
proof -
  assume "doc = \<lparr>fullName = fullName req, email = email req, phoneNumber = phoneNumber req,
          gender = gender req, dateOfBirth = dateOfBirth req, address = address req,
          password = password req, latitude = latitude req, longitude = longitude req,
          deviceInfo = deviceInfo req\<rparr>"
  then have doc: "doc = new_Customer req"
    by (simp add: new_Customer_def)
  show ?thesis
  proof (intro conjI impI)
    assume a: "db_findOne e' p = None \<and> find (\<lambda>c. phoneNumber c = Some p) (db w) = Some c"
    then show "fst (get_api_customers_phone e' p w) = \<lparr>status = 200, body = Document c\<rparr>"
      by (simp add: get_found res_json_def)
    from a show "c \<in> set (db w)"
      by (auto simp: find_Some_iff)
  next
    assume a: "validation req = Inr None \<and> db_save e doc = None"
    then show "db (snd (post_api_customers_sendgrid e req w)) = db w @ [doc]"
      and "db (snd (post_api_customers_nodemailer e req w)) = db w @ [doc]"
      and "db (snd (post_api_customers_plain e req w)) = db w @ [doc]"
      unfolding doc by (simp_all add: sendgrid_saved(2) nodemailer_saved(2) plain_saved(2))
    show "password doc = password req"
      unfolding doc by (simp add: new_Customer_def)
  next
    assume a: "validation req = Inr None \<and> db_save e doc = None
        \<and> phoneNumber req = Some p \<and> list_all (\<lambda>c. phoneNumber c \<noteq> Some p) (db w)
        \<and> db_findOne e' p = None"
    then have none: "find (\<lambda>c. phoneNumber c = Some p) (db w) = None"
      by (simp add: find_None_list_all)
    have ph: "phoneNumber (new_Customer req) = Some p"
      using a by (simp add: new_Customer_def)
    have f: "find (\<lambda>c. phoneNumber c = Some p) (db w @ [new_Customer req]) = Some (new_Customer req)"
      using none ph by (simp add: find_append_None)
    from a have ok: "db_findOne e' p = None" by simp
    from a have v: "validation req = Inr None" and s: "db_save e (new_Customer req) = None"
      unfolding doc by simp_all
    show "fst (get_api_customers_phone e' p (snd (post_api_customers_sendgrid e req w))) =
          \<lparr>status = 200, body = Document doc\<rparr>"
      unfolding doc by (simp add: get_found [OF ok] f sendgrid_saved(2) [OF v s] res_json_def)
    show "fst (get_api_customers_phone e' p (snd (post_api_customers_nodemailer e req w))) =
          \<lparr>status = 200, body = Document doc\<rparr>"
      unfolding doc by (simp add: get_found [OF ok] f nodemailer_saved(2) [OF v s] res_json_def)
    show "fst (get_api_customers_phone e' p (snd (post_api_customers_plain e req w))) =
          \<lparr>status = 200, body = Document doc\<rparr>"
      unfolding doc by (simp add: get_found [OF ok] f plain_saved(2) [OF v s] res_json_def)
  qed
qed

theorem lookup_returns_stored_record_witness:
  "validation jane = Inr None
   \<and> db_save env_up
        \<lparr>fullName = Some (js ''Jane Doe''), email = Some (js ''jane@example.com''),
         phoneNumber = Some (js ''1234567890''), gender = Some (js ''F''),
         dateOfBirth = Some (js ''1990-01-01''), address = Some (js ''1 Main St''),
         password = Some (js ''secret1''), latitude = Some 12.34, longitude = Some 56.78,
         deviceInfo = None\<rparr> = None
   \<and> phoneNumber jane = Some (js ''1234567890'') \<and> db world0 = []
   \<and> db_findOne env_up (js ''1234567890'') = None
   \<and> db (snd (post_api_customers_sendgrid env_up jane world0)) =
        [\<lparr>fullName = Some (js ''Jane Doe''), email = Some (js ''jane@example.com''),
          phoneNumber = Some (js ''1234567890''), gender = Some (js ''F''),
          dateOfBirth = Some (js ''1990-01-01''), address = Some (js ''1 Main St''),
          password = Some (js ''secret1''), latitude = Some 12.34, longitude = Some 56.78,
          deviceInfo = None\<rparr>]
   \<and> db (snd (post_api_customers_nodemailer env_up jane world0)) =
        [\<lparr>fullName = Some (js ''Jane Doe''), email = Some (js ''jane@example.com''),
          phoneNumber = Some (js ''1234567890''), gender = Some (js ''F''),
          dateOfBirth = Some (js ''1990-01-01''), address = Some (js ''1 Main St''),
          password = Some (js ''secret1''), latitude = Some 12.34, longitude = Some 56.78,
          deviceInfo = None\<rparr>]
   \<and> db (snd (post_api_customers_plain env_up jane world0)) =
        [\<lparr>fullName = Some (js ''Jane Doe''), email = Some (js ''jane@example.com''),
          phoneNumber = Some (js ''1234567890''), gender = Some (js ''F''),
          dateOfBirth = Some (js ''1990-01-01''), address = Some (js ''1 Main St''),
          password = Some (js ''secret1''), latitude = Some 12.34, longitude = Some 56.78,
          deviceInfo = None\<rparr>]
   \<and> fst (get_api_customers_phone env_up (js ''1234567890'')
            (snd (post_api_customers_sendgrid env_up jane world0))) =
        \<lparr>status = 200, body = Document
          \<lparr>fullName = Some (js ''Jane Doe''), email = Some (js ''jane@example.com''),
           phoneNumber = Some (js ''1234567890''), gender = Some (js ''F''),
           dateOfBirth = Some (js ''1990-01-01''), address = Some (js ''1 Main St''),
           password = Some (js ''secret1''), latitude = Some 12.34, longitude = Some 56.78,
           deviceInfo = None\<rparr>\<rparr>
   \<and> fst (get_api_customers_phone env_up (js ''1234567890'')
            (snd (post_api_customers_nodemailer env_up jane world0))) =
        \<lparr>status = 200, body = Document
          \<lparr>fullName = Some (js ''Jane Doe''), email = Some (js ''jane@example.com''),
           phoneNumber = Some (js ''1234567890''), gender = Some (js ''F''),
           dateOfBirth = Some (js ''1990-01-01''), address = Some (js ''1 Main St''),
           password = Some (js ''secret1''), latitude = Some 12.34, longitude = Some 56.78,
           deviceInfo = None\<rparr>\<rparr>
   \<and> fst (get_api_customers_phone env_up (js ''1234567890'')
            (snd (post_api_customers_plain env_up jane world0))) =
        \<lparr>status = 200, body = Document
          \<lparr>fullName = Some (js ''Jane Doe''), email = Some (js ''jane@example.com''),
           phoneNumber = Some (js ''1234567890''), gender = Some (js ''F''),
           dateOfBirth = Some (js ''1990-01-01''), address = Some (js ''1 Main St''),
           password = Some (js ''secret1''), latitude = Some 12.34, longitude = Some 56.78,
           deviceInfo = None\<rparr>\<rparr>
   \<and> find (\<lambda>c. phoneNumber c = Some (js ''1234567890'')) (db world_jane) = Some (new_Customer jane)
   \<and> fst (get_api_customers_phone env_up (js ''1234567890'') world_jane) =
        \<lparr>status = 200, body = Document (new_Customer jane)\<rparr>"
proof -
  define doc where "doc =
     \<lparr>fullName = Some (js ''Jane Doe''), email = Some (js ''jane@example.com''),
      phoneNumber = Some (js ''1234567890''), gender = Some (js ''F''),
      dateOfBirth = Some (js ''1990-01-01''), address = Some (js ''1 Main St''),
      password = Some (js ''secret1''), latitude = Some (12.34 :: real),
      longitude = Some (56.78 :: real), deviceInfo = (None :: json_value option)\<rparr>"
  have d: "doc = \<lparr>fullName = fullName jane, email = email jane, phoneNumber = phoneNumber jane,
          gender = gender jane, dateOfBirth = dateOfBirth jane, address = address jane,
          password = password jane, latitude = latitude jane, longitude = longitude jane,
          deviceInfo = deviceInfo jane\<rparr>"
    by (simp add: doc_def jane_def)
  have h: "db_save env_up doc = None"
    "phoneNumber jane = Some (js ''1234567890'')"
    "list_all (\<lambda>c. phoneNumber c \<noteq> Some (js ''1234567890'')) (db world0)"
    "db_findOne env_up (js ''1234567890'') = None" "db world0 = []"
    by (simp_all add: env_up_def jane_def world0_def)
  have f: "find (\<lambda>c. phoneNumber c = Some (js ''1234567890'')) (db world_jane)
      = Some (new_Customer jane)"
    by (simp add: world_jane_def new_Customer_def jane_def)
  have stored: "fst (get_api_customers_phone env_up (js ''1234567890'') world_jane) =
        \<lparr>status = 200, body = Document (new_Customer jane)\<rparr>"
    using lookup_returns_stored_record
      [OF d, of env_up "js ''1234567890''" world_jane "new_Customer jane"] h(4) f
    by blast
  have reg: "db (snd (post_api_customers_sendgrid env_up jane world0)) = db world0 @ [doc]
      \<and> db (snd (post_api_customers_nodemailer env_up jane world0)) = db world0 @ [doc]
      \<and> db (snd (post_api_customers_plain env_up jane world0)) = db world0 @ [doc]"
    using lookup_returns_stored_record [OF d, of env_up "js ''1234567890''" world0 _ env_up]
      validation_jane h(1)
    by blast
  have look: "fst (get_api_customers_phone env_up (js ''1234567890'')
            (snd (post_api_customers_sendgrid env_up jane world0))) =
        \<lparr>status = 200, body = Document doc\<rparr>
      \<and> fst (get_api_customers_phone env_up (js ''1234567890'')
            (snd (post_api_customers_nodemailer env_up jane world0))) =
        \<lparr>status = 200, body = Document doc\<rparr>
      \<and> fst (get_api_customers_phone env_up (js ''1234567890'')
            (snd (post_api_customers_plain env_up jane world0))) =
        \<lparr>status = 200, body = Document doc\<rparr>"
    using lookup_returns_stored_record [OF d, of env_up "js ''1234567890''" world0 _ env_up]
      validation_jane h
    by blast
  show ?thesis
    using reg look stored f h validation_jane
    unfolding doc_def by simp
qed

end
